theory Spec2Isabelle
  imports Main "HOL-Library.Word" "HOL-Library.Signed_Division"
begin

section \<open>Machine types\<close>

text \<open>
  Go's fixed-width integers are words: \<open>int64\<close> and \<open>uint64\<close> are 64-bit words
  (read with \<open>sint\<close> and \<open>unat\<close>), \<open>uint8\<close> is an 8-bit word, \<open>common.Hash\<close>
  (\<open>[32]byte\<close>) is a 256-bit word whose zero value \<open>common.Hash{}\<close> is \<open>0\<close>,
  \<open>common.Address\<close> (\<open>[20]byte\<close>) is a 160-bit word, and a \<open>[]byte\<close> is a list of
  bytes.
\<close>

type_synonym int64 = "64 word"
type_synonym uint64 = "64 word"
type_synonym uint8 = "8 word"
type_synonym byte = "8 word"
type_synonym hash = "256 word"
type_synonym address = "160 word"

text \<open>A Go array \<open>[6]T\<close>: exactly six elements, in order.\<close>

datatype 'a array6 = Array6 'a 'a 'a 'a 'a 'a

fun elems :: "'a array6 \<Rightarrow> 'a list" where
  "elems (Array6 a b c d e f) = [a, b, c, d, e, f]"

fun set0 :: "'a array6 \<Rightarrow> 'a \<Rightarrow> 'a array6" where
  "set0 (Array6 a b c d e f) x = Array6 x b c d e f"

section \<open>Hexagonal coordinates (package core)\<close>

record HexCoordinate =
  Q :: int64
  R :: int64
  S :: int64

definition NewHexCoordinate :: "int64 \<Rightarrow> int64 \<Rightarrow> HexCoordinate" where
  "NewHexCoordinate q r = \<lparr>Q = q, R = r, S = - q - r\<rparr>"

text \<open>The helper \<open>abs\<close> of the source, on \<open>int64\<close>: the negation wraps.\<close>

definition abs64 :: "int64 \<Rightarrow> int64" where
  "abs64 x = (if x <s 0 then - x else x)"

text \<open>Go's \<open>/\<close> on \<open>int64\<close> truncates towards zero.\<close>

definition div64 :: "int64 \<Rightarrow> int64 \<Rightarrow> int64" where
  "div64 x y = word_of_int (sint x sdiv sint y)"

definition Distance :: "HexCoordinate \<Rightarrow> HexCoordinate \<Rightarrow> int64" where
  "Distance h other =
     div64 (abs64 (Q h - Q other) + abs64 (R h - R other) + abs64 (S h - S other)) 2"

text \<open>The direction table of \<open>Neighbors\<close>, in the order of the source.\<close>

definition directions :: "(int64 \<times> int64) list" where
  "directions = [(1, 0), (1, - 1), (0, - 1), (- 1, 0), (- 1, 1), (0, 1)]"

definition Neighbors :: "HexCoordinate \<Rightarrow> HexCoordinate list" where
  "Neighbors h = map (\<lambda>(dq, dr). NewHexCoordinate (Q h + dq) (R h + dr)) directions"

text \<open>The cube-coordinate constraint that \<open>validateHexCoordinate\<close> tests.\<close>

definition cube_ok :: "HexCoordinate \<Rightarrow> bool" where
  "cube_ok pos = (Q pos + R pos + S pos = 0)"

section \<open>Headers, proofs and blocks (package core)\<close>

record HexaProof =
  NeighborSignatures :: "byte list array6"
  StateProof :: "byte list"
  MeshProof :: "byte list"
  Timestamp :: uint64
  ValidatorSet :: "address list"
  ProofHash :: hash

text \<open>
  The standard Ethereum header fields, which \<open>types.Header\<close> and \<open>HexHeader\<close> have in
  common (the source marks them as inherited). \<open>Number\<close> is a \<open>*big.Int\<close> that the
  validation code reads only through \<open>Number.Uint64()\<close>; the field holds that
  \<open>uint64\<close> value (block numbers lie in the \<open>uint64\<close> range, where \<open>Uint64\<close> is
  exact). Optional (pointer) fields are options. Headers and blocks are passed by
  pointer in the source; the model covers the calls in which these pointers, and
  \<open>Number\<close>, are set.
\<close>

record StdFields =
  Coinbase :: address
  Root :: hash
  TxHash :: hash
  ReceiptHash :: hash
  Bloom :: "byte list"
  Difficulty :: int
  Number :: uint64
  GasLimit :: uint64
  GasUsed :: uint64
  Time :: uint64
  Extra :: "byte list"
  MixDigest :: hash
  Nonce :: uint64
  BaseFee :: "int option"
  WithdrawalsHash :: "hash option"
  BlobGasUsed :: "uint64 option"
  ExcessBlobGas :: "uint64 option"

text \<open>The zero value \<open>types.Bloom{}\<close>: 256 zero bytes.\<close>

definition zero_Bloom :: "byte list" where
  "zero_Bloom = replicate 256 0"

text \<open>go-ethereum's \<open>types.Header\<close>: one parent.\<close>

record Header = StdFields +
  ParentHash :: hash
  UncleHash :: hash

record HexHeader = StdFields +
  ParentHashes :: "hash array6"
  NeighborCount :: uint8
  HexPosition :: HexCoordinate
  MeshRoot :: hash
  HexProof :: HexaProof

record HexBlock =
  header :: HexHeader
  transactions :: "byte list list"
  withdrawals :: "byte list list"
  neighborProofs :: "byte list array6"
  meshWitness :: "byte list"
  hash :: hash
  size :: uint64

text \<open>The zero value \<open>HexaProof{}\<close>.\<close>

definition empty_HexaProof :: HexaProof where
  "empty_HexaProof =
     \<lparr>NeighborSignatures = Array6 [] [] [] [] [] [], StateProof = [], MeshProof = [],
      Timestamp = 0, ValidatorSet = [], ProofHash = 0\<rparr>"

subsection \<open>The memoized proof hash\<close>

text \<open>Big-endian bytes of a word: \<open>binary.BigEndian.PutUint64\<close> and \<open>Address.Bytes\<close>.\<close>

fun be_bytes :: "nat \<Rightarrow> 'a::len word \<Rightarrow> byte list" where
  "be_bytes 0 w = []"
| "be_bytes (Suc n) w = ucast (drop_bit (8 * n) w) # be_bytes n w"

text \<open>What \<open>HexaProof.Hash\<close> writes to the hasher, in order.\<close>

definition proof_preimage :: "HexaProof \<Rightarrow> byte list" where
  "proof_preimage hp =
     concat (elems (NeighborSignatures hp)) @ StateProof hp @ MeshProof hp
       @ be_bytes 8 (Timestamp hp) @ concat (map (be_bytes 20) (ValidatorSet hp))"

text \<open>
  \<open>HexaProof.Hash\<close>: SHA-256 is a parameter. The method has a pointer receiver and
  stores the digest in \<open>ProofHash\<close>, so the model returns the digest and the proof
  after the call.
\<close>

definition HexaProof_Hash :: "(byte list \<Rightarrow> hash) \<Rightarrow> HexaProof \<Rightarrow> hash \<times> HexaProof" where
  "HexaProof_Hash sha256_sum hp =
     (if ProofHash hp \<noteq> 0 then (ProofHash hp, hp)
      else (sha256_sum (proof_preimage hp), hp\<lparr>ProofHash := sha256_sum (proof_preimage hp)\<rparr>))"

text \<open>\<open>HexGenesisBlock\<close>: the clock is a parameter.\<close>

definition HexGenesisBlock :: "uint64 \<Rightarrow> hash \<Rightarrow> hash \<Rightarrow> HexBlock" where
  "HexGenesisBlock now EmptyTxsHash EmptyReceiptsHash =
     \<lparr>header =
        \<lparr>Coinbase = 0, Root = 0, TxHash = EmptyTxsHash, ReceiptHash = EmptyReceiptsHash,
         Bloom = zero_Bloom, Difficulty = 1, Number = 0, GasLimit = 5000000,
         GasUsed = 0, Time = now, Extra = map (of_nat \<circ> of_char) ''Hexagonal Chain Genesis'',
         MixDigest = 0, Nonce = 0, BaseFee = None, WithdrawalsHash = None,
         BlobGasUsed = None, ExcessBlobGas = None,
         ParentHashes = Array6 0 0 0 0 0 0, NeighborCount = 0,
         HexPosition = NewHexCoordinate 0 0, MeshRoot = 0, HexProof = empty_HexaProof\<rparr>,
      transactions = [], withdrawals = [],
      neighborProofs = Array6 [] [] [] [] [] [], meshWitness = [], hash = 0, size = 0\<rparr>"

section \<open>The consensus engine (package consensus)\<close>

record HexaProofConfig =
  MaxNeighbors :: int
  MinNeighbors :: int
  BlockTime :: int
  FinalizationTime :: int
  SignatureTimeout :: int
  ConflictResolver :: string
  ValidatorTimeout :: int

text \<open>Durations are nanoseconds, as \<open>time.Duration\<close> is.\<close>

definition DefaultHexaProofConfig :: HexaProofConfig where
  "DefaultHexaProofConfig =
     \<lparr>MaxNeighbors = 6, MinNeighbors = 3, BlockTime = 2 * 1000000000,
      FinalizationTime = 6 * 1000000000, SignatureTimeout = 1 * 1000000000,
      ConflictResolver = ''weighted'', ValidatorTimeout = 2 * 1000000000\<rparr>"

text \<open>
  Every validation function of the source returns a Go \<open>error\<close>: \<open>None\<close> is \<open>nil\<close>
  (the stage accepts), \<open>Some e\<close> is the error returned. There is one constructor for
  each error the source builds.
\<close>

datatype err =
    TooManyNeighbors
  | NeighborCountMismatch
  | GenesisMustHaveZeroNeighbors
  | NonGenesisNeedsParent
  | UnknownParent hash nat
  | InvalidParentNumber
  | ParentTooOld
  | SelfReference
  | CircularReference
  | TooManyNeighborsForConfig
  | InsufficientNeighbors
  | InvalidTimestamp
  | TimestampTooFarInFuture
  | MissingProofTimestamp
  | ProofTimestampBeforeBlock
  | ProofReferencesUnknownParent hash
  | InsufficientSignatures
  | ConversionFailed
  | ParentAtInvalidNeighborPosition
  | FailedToGetParentState hash
  | NonGenesisNeedsParentStates

text \<open>\<open>consensus.ChainHeaderReader\<close>, as far as the engine uses it: \<open>GetHeaderByHash\<close>.\<close>

type_synonym ChainHeaderReader = "hash \<Rightarrow> Header option"

text \<open>The counting loop of \<open>validateBasicStructure\<close>.\<close>

fun nonZeroParents :: "hash list \<Rightarrow> nat" where
  "nonZeroParents [] = 0"
| "nonZeroParents (parentHash # rest) =
     (if parentHash \<noteq> 0 then Suc (nonZeroParents rest) else nonZeroParents rest)"

definition validateBasicStructure :: "HexHeader \<Rightarrow> err option" where
  "validateBasicStructure h =
     (if 6 < NeighborCount h then Some TooManyNeighbors
      else if nonZeroParents (elems (ParentHashes h)) \<noteq> unat (NeighborCount h)
        then Some NeighborCountMismatch
      else if Number h = 0 \<and> NeighborCount h \<noteq> 0 then Some GenesisMustHaveZeroNeighbors
      else if 0 < Number h \<and> NeighborCount h = 0 then Some NonGenesisNeedsParent
      else None)"

text \<open>The loop of \<open>validateParents\<close>, with the slot index \<open>i\<close>.\<close>

fun validateParents_loop :: "ChainHeaderReader \<Rightarrow> HexHeader \<Rightarrow> nat \<Rightarrow> hash list \<Rightarrow> err option" where
  "validateParents_loop chain h i [] = None"
| "validateParents_loop chain h i (parentHash # rest) =
     (if parentHash = 0 then validateParents_loop chain h (Suc i) rest
      else case chain parentHash of
          None \<Rightarrow> Some (UnknownParent parentHash i)
        | Some parentHeader \<Rightarrow>
            if Number h \<le> Number parentHeader then Some InvalidParentNumber
            else if 10 < Number h - Number parentHeader then Some ParentTooOld
            else validateParents_loop chain h (Suc i) rest)"

definition validateParents :: "ChainHeaderReader \<Rightarrow> HexHeader \<Rightarrow> err option" where
  "validateParents chain h = validateParents_loop chain h 0 (elems (ParentHashes h))"

text \<open>
  \<open>convertToHexHeader\<close>: the standard fields are copied, the hexagonal fields are set
  to fixed defaults, every other field keeps its zero value. The error it returns is
  always \<open>nil\<close>.
\<close>

definition convertToHexHeader :: "Header \<Rightarrow> err + HexHeader" where
  "convertToHexHeader eth =
     Inr \<lparr>Coinbase = Coinbase eth, Root = Root eth, TxHash = TxHash eth,
          ReceiptHash = ReceiptHash eth, Bloom = Bloom eth, Difficulty = Difficulty eth,
          Number = Number eth, GasLimit = GasLimit eth, GasUsed = GasUsed eth, Time = Time eth,
          Extra = Extra eth, MixDigest = MixDigest eth, Nonce = Nonce eth, BaseFee = BaseFee eth,
          WithdrawalsHash = WithdrawalsHash eth, BlobGasUsed = BlobGasUsed eth,
          ExcessBlobGas = ExcessBlobGas eth,
          ParentHashes = set0 (Array6 0 0 0 0 0 0) (ParentHash eth),
          NeighborCount = 1,
          HexPosition = NewHexCoordinate 0 0,
          MeshRoot = Root eth,
          HexProof = empty_HexaProof\<rparr>"

text \<open>
  The loop of the engine's \<open>validateMeshTopology\<close>. The header hash (\<open>rlpHash\<close>, Keccak
  over the RLP encoding) is the parameter \<open>Hash\<close>.
\<close>

fun circular_loop :: "(HexHeader \<Rightarrow> hash) \<Rightarrow> ChainHeaderReader \<Rightarrow> HexHeader \<Rightarrow> hash list \<Rightarrow> err option" where
  "circular_loop Hash chain h [] = None"
| "circular_loop Hash chain h (parentHash # rest) =
     (if parentHash = 0 then circular_loop Hash chain h rest
      else if parentHash = Hash h then Some SelfReference
      else case chain parentHash of
          None \<Rightarrow> circular_loop Hash chain h rest
        | Some parentHeader \<Rightarrow>
            (case convertToHexHeader parentHeader of
               Inl e \<Rightarrow> circular_loop Hash chain h rest
             | Inr parentHexHeader \<Rightarrow>
                 if list_ex (\<lambda>grandParentHash. grandParentHash = Hash h)
                      (elems (ParentHashes parentHexHeader))
                 then Some CircularReference
                 else circular_loop Hash chain h rest))"

text \<open>
  After the loop the source fills a map with \<open>header.HexPosition.Neighbors()\<close> and
  never reads it; the function then returns \<open>nil\<close>.
\<close>

definition validateMeshTopology :: "(HexHeader \<Rightarrow> hash) \<Rightarrow> ChainHeaderReader \<Rightarrow> HexHeader \<Rightarrow> err option" where
  "validateMeshTopology Hash chain h =
     (case circular_loop Hash chain h (elems (ParentHashes h)) of
        Some e \<Rightarrow> Some e
      | None \<Rightarrow> (let validNeighborPositions = set (Neighbors (HexPosition h)) in None))"

definition validateNeighborCount :: "HexaProofConfig \<Rightarrow> HexHeader \<Rightarrow> err option" where
  "validateNeighborCount config h =
     (if MaxNeighbors config < uint (NeighborCount h) then Some TooManyNeighborsForConfig
      else if 0 < Number h \<and> uint (NeighborCount h) < MinNeighbors config
        then Some InsufficientNeighbors
      else None)"

text \<open>The loop of \<open>validateTimestamp\<close>: the running maximum starts at 0.\<close>

fun maxParentTime_loop :: "ChainHeaderReader \<Rightarrow> uint64 \<Rightarrow> hash list \<Rightarrow> uint64" where
  "maxParentTime_loop chain maxParentTime [] = maxParentTime"
| "maxParentTime_loop chain maxParentTime (parentHash # rest) =
     (if parentHash = 0 then maxParentTime_loop chain maxParentTime rest
      else case chain parentHash of
          None \<Rightarrow> maxParentTime_loop chain maxParentTime rest
        | Some parentHeader \<Rightarrow>
            if maxParentTime < Time parentHeader
            then maxParentTime_loop chain (Time parentHeader) rest
            else maxParentTime_loop chain maxParentTime rest)"

text \<open>\<open>validateTimestamp\<close>: \<open>now\<close> is \<open>uint64(time.Now().Unix())\<close>; \<open>now + 15\<close> wraps.\<close>

definition validateTimestamp :: "uint64 \<Rightarrow> ChainHeaderReader \<Rightarrow> HexHeader \<Rightarrow> err option" where
  "validateTimestamp now chain h =
     (if Time h \<le> maxParentTime_loop chain 0 (elems (ParentHashes h)) then Some InvalidTimestamp
      else if now + 15 < Time h then Some TimestampTooFarInFuture
      else None)"

text \<open>The two loops of \<open>validateHexaProof\<close>.\<close>

fun proofParents_loop :: "ChainHeaderReader \<Rightarrow> hash list \<Rightarrow> err option" where
  "proofParents_loop chain [] = None"
| "proofParents_loop chain (parentHash # rest) =
     (if parentHash = 0 then proofParents_loop chain rest
      else if chain parentHash = None then Some (ProofReferencesUnknownParent parentHash)
      else proofParents_loop chain rest)"

fun validSignatures :: "byte list list \<Rightarrow> nat" where
  "validSignatures [] = 0"
| "validSignatures (sig # rest) =
     (if 0 < length sig then Suc (validSignatures rest) else validSignatures rest)"

definition validateHexaProof :: "ChainHeaderReader \<Rightarrow> HexHeader \<Rightarrow> err option" where
  "validateHexaProof chain h =
     (if Timestamp (HexProof h) = 0 then Some MissingProofTimestamp
      else if Timestamp (HexProof h) < Time h then Some ProofTimestampBeforeBlock
      else case proofParents_loop chain (elems (ParentHashes h)) of
          Some e \<Rightarrow> Some e
        | None \<Rightarrow>
            if validSignatures (elems (NeighborSignatures (HexProof h))) < unat (NeighborCount h)
            then Some InsufficientSignatures
            else None)"

text \<open>\<open>verifyHexHeader\<close>: six stages in order, the first error returned.\<close>

definition verifyHexHeader ::
  "(HexHeader \<Rightarrow> hash) \<Rightarrow> HexaProofConfig \<Rightarrow> uint64 \<Rightarrow> ChainHeaderReader \<Rightarrow> HexHeader \<Rightarrow> err option" where
  "verifyHexHeader Hash config now chain h =
     (case validateBasicStructure h of Some e \<Rightarrow> Some e | None \<Rightarrow>
      case validateParents chain h of Some e \<Rightarrow> Some e | None \<Rightarrow>
      case validateMeshTopology Hash chain h of Some e \<Rightarrow> Some e | None \<Rightarrow>
      case validateNeighborCount config h of Some e \<Rightarrow> Some e | None \<Rightarrow>
      case validateTimestamp now chain h of Some e \<Rightarrow> Some e | None \<Rightarrow>
      case validateHexaProof chain h of Some e \<Rightarrow> Some e | None \<Rightarrow> None)"

definition VerifyHeader ::
  "(HexHeader \<Rightarrow> hash) \<Rightarrow> HexaProofConfig \<Rightarrow> uint64 \<Rightarrow> ChainHeaderReader \<Rightarrow> Header \<Rightarrow> err option" where
  "VerifyHeader Hash config now chain eth =
     (case convertToHexHeader eth of
        Inl e \<Rightarrow> Some ConversionFailed
      | Inr hexHeader \<Rightarrow> verifyHexHeader Hash config now chain hexHeader)"

section \<open>The block validator (package core)\<close>

text \<open>
  \<open>HexBlockChain\<close>, as far as the functions below use it. \<open>GetState\<close> returns a state
  or an error (\<open>None\<close>); the state database is an abstract type.
\<close>

record 'st HexBlockChain =
  GetHexBlock :: "hash \<Rightarrow> HexBlock option"
  HasHexBlock :: "hash \<Rightarrow> bool"
  GetState :: "hash \<Rightarrow> 'st option"

text \<open>The loop of \<open>ValidateStateTransitions\<close> that collects the parent states.\<close>

fun parentStates_loop :: "'st HexBlockChain \<Rightarrow> 'st list \<Rightarrow> hash list \<Rightarrow> err + 'st list" where
  "parentStates_loop bc parentStates [] = Inr parentStates"
| "parentStates_loop bc parentStates (parentHash # rest) =
     (if parentHash = 0 then parentStates_loop bc parentStates rest
      else case GetState bc parentHash of
          None \<Rightarrow> Inl (FailedToGetParentState parentHash)
        | Some parentState \<Rightarrow> parentStates_loop bc (parentStates @ [parentState]) rest)"

text \<open>
  \<open>ValidateStateTransitions\<close>: with at least one parent state the source copies the
  first one into \<open>baseState\<close>, discards it and returns \<open>nil\<close>.
\<close>

definition ValidateStateTransitions :: "'st HexBlockChain \<Rightarrow> HexBlock \<Rightarrow> err option" where
  "ValidateStateTransitions bc block =
     (case parentStates_loop bc [] (elems (ParentHashes (header block))) of
        Inl e \<Rightarrow> Some e
      | Inr parentStates \<Rightarrow>
          (case parentStates of
             [] \<Rightarrow> if Number (header block) \<noteq> 0 then Some NonGenesisNeedsParentStates else None
           | baseState # others \<Rightarrow> None))"

text \<open>The loop of the block validator's \<open>validateMeshTopology\<close>.\<close>

fun neighborPosition_loop :: "'st HexBlockChain \<Rightarrow> HexCoordinate list \<Rightarrow> hash list \<Rightarrow> err option" where
  "neighborPosition_loop bc validNeighbors [] = None"
| "neighborPosition_loop bc validNeighbors (parentHash # rest) =
     (if parentHash = 0 then neighborPosition_loop bc validNeighbors rest
      else case GetHexBlock bc parentHash of
          None \<Rightarrow> neighborPosition_loop bc validNeighbors rest
        | Some parentBlock \<Rightarrow>
            if HexPosition (header parentBlock) \<notin> set validNeighbors
            then Some ParentAtInvalidNeighborPosition
            else neighborPosition_loop bc validNeighbors rest)"

definition HexBlockValidator_validateMeshTopology :: "'st HexBlockChain \<Rightarrow> HexBlock \<Rightarrow> err option" where
  "HexBlockValidator_validateMeshTopology bc block =
     neighborPosition_loop bc (Neighbors (HexPosition (header block)))
       (elems (ParentHashes (header block)))"

definition ValidateHexProof :: "HexBlock \<Rightarrow> err option" where
  "ValidateHexProof block =
     (if Timestamp (HexProof (header block)) = 0 then Some MissingProofTimestamp
      else if Timestamp (HexProof (header block)) < Time (header block)
        then Some ProofTimestampBeforeBlock
      else if validSignatures (elems (NeighborSignatures (HexProof (header block))))
                < unat (NeighborCount (header block))
        then Some InsufficientSignatures
      else None)"

section \<open>Auxiliary notions for stating the properties\<close>

text \<open>The headers that the non-empty parent slots resolve to, in slot order.\<close>

definition resolvedParents :: "ChainHeaderReader \<Rightarrow> hash list \<Rightarrow> Header list" where
  "resolvedParents chain ps = List.map_filter chain (filter (\<lambda>p. p \<noteq> 0) ps)"

text \<open>
  A signature check \<open>verify\<close> (message hash, signature) stands for the external
  cryptographic capability. The predicate says that every non-empty signature slot of
  a proof passes it for the message \<open>msg\<close>. The source calls no signature check; the
  predicate only serves to state what the engine does not enforce.
\<close>

definition present_signatures_verify :: "(hash \<Rightarrow> byte list \<Rightarrow> bool) \<Rightarrow> hash \<Rightarrow> HexaProof \<Rightarrow> bool" where
  "present_signatures_verify verify msg hp =
     list_all (\<lambda>sig. sig = [] \<or> verify msg sig) (elems (NeighborSignatures hp))"

section \<open>Example inputs\<close>

text \<open>
  A small chain: a parent header of number 0 and time 900 stored under the hash
  \<open>0x1234\<close>, and a child of number 1 and time 1000 that names it as its only parent,
  as a \<open>types.Header\<close> and as a \<open>HexHeader\<close> at position \<open>(1, 0)\<close> whose proof carries
  the time stamp 1000 and the one-byte signature \<open>[0]\<close> in slot 0.
\<close>

definition example_parent :: Header where
  "example_parent =
     \<lparr>Coinbase = 0, Root = 0x11, TxHash = 0, ReceiptHash = 0, Bloom = zero_Bloom,
      Difficulty = 1,
      Number = 0, GasLimit = 5000000, GasUsed = 0, Time = 900, Extra = [], MixDigest = 0,
      Nonce = 0, BaseFee = None, WithdrawalsHash = None, BlobGasUsed = None,
      ExcessBlobGas = None, ParentHash = 0, UncleHash = 0\<rparr>"

definition example_chain :: ChainHeaderReader where
  "example_chain = (\<lambda>x. if x = 0x1234 then Some example_parent else None)"

definition example_eth :: Header where
  "example_eth = example_parent\<lparr>Number := 1, Time := 1000, ParentHash := 0x1234\<rparr>"

definition example_header :: HexHeader where
  "example_header =
     \<lparr>Coinbase = 0, Root = 0x22, TxHash = 0, ReceiptHash = 0, Bloom = zero_Bloom,
      Difficulty = 1,
      Number = 1, GasLimit = 5000000, GasUsed = 0, Time = 1000, Extra = [], MixDigest = 0,
      Nonce = 0, BaseFee = None, WithdrawalsHash = None, BlobGasUsed = None,
      ExcessBlobGas = None,
      ParentHashes = Array6 0x1234 0 0 0 0 0, NeighborCount = 1,
      HexPosition = NewHexCoordinate 1 0, MeshRoot = 0,
      HexProof = empty_HexaProof\<lparr>NeighborSignatures := Array6 [0] [] [] [] [] [],
                                 Timestamp := 1000\<rparr>\<rparr>"

text \<open>A stand-in for the header hash: any function will do as the parameter.\<close>

definition example_Hash :: "HexHeader \<Rightarrow> hash" where
  "example_Hash h = 0xBEEF0000 + ucast (Number h)"

definition block_of :: "HexHeader \<Rightarrow> HexBlock" where
  "block_of h =
     \<lparr>header = h, transactions = [], withdrawals = [],
      neighborProofs = Array6 [] [] [] [] [] [], meshWitness = [], hash = 0, size = 0\<rparr>"

text \<open>
  A block store: the genesis block of \<open>HexGenesisBlock\<close> (position \<open>(0, 0)\<close>) under
  \<open>0x1234\<close> with state 1, and the example block (position \<open>(1, 0)\<close>) under \<open>0x5678\<close>
  with state 2. States are plain numbers here.
\<close>

definition example_bc :: "nat HexBlockChain" where
  "example_bc =
     \<lparr>GetHexBlock = (\<lambda>x. if x = 0x1234 then Some (HexGenesisBlock 900 0 0)
                          else if x = 0x5678 then Some (block_of example_header) else None),
      HasHexBlock = (\<lambda>x. x = 0x1234 \<or> x = 0x5678),
      GetState = (\<lambda>x. if x = 0x1234 then Some 1 else if x = 0x5678 then Some 2 else None)\<rparr>"

text \<open>A candidate with the two parents \<open>0x1234\<close> and \<open>0x5678\<close> that declares the state root \<open>r\<close>.\<close>

definition two_parent_block :: "hash \<Rightarrow> HexBlock" where
  "two_parent_block r =
     block_of (example_header\<lparr>Root := r, Number := 2, NeighborCount := 2,
                              ParentHashes := Array6 0x1234 0x5678 0 0 0 0\<rparr>)"

text \<open>
  A stand-in for SHA-256: the bytes read as the digits of a number to the base 256,
  after a leading digit 1.
\<close>

definition example_digest :: "byte list \<Rightarrow> hash" where
  "example_digest bs = of_nat (foldl (\<lambda>acc b. 256 * acc + unat b) 1 bs)"

section \<open>Coordinates: neighbours\<close>

lemma abs64_one: "abs64 1 = 1"
  by (simp add: abs64_def word_sless_alt)

lemma abs64_minus_one: "abs64 (- 1) = 1"
  by (simp add: abs64_def)

lemma abs64_zero: "abs64 0 = 0"
  by (simp add: abs64_def)

lemma div64_two_two: "div64 2 2 = 1"
  by (simp add: div64_def signed_divide_int_def)

lemma Neighbors_unfold:
  "Neighbors a =
     [NewHexCoordinate (Q a + 1) (R a), NewHexCoordinate (Q a + 1) (R a - 1),
      NewHexCoordinate (Q a) (R a - 1), NewHexCoordinate (Q a - 1) (R a),
      NewHexCoordinate (Q a - 1) (R a + 1), NewHexCoordinate (Q a) (R a + 1)]"
  by (simp add: Neighbors_def directions_def)

lemma cube_ok_New: "cube_ok (NewHexCoordinate q r)"
  by (simp add: cube_ok_def NewHexCoordinate_def)

lemma cube_ok_eq_New:
  assumes "cube_ok a"
  shows "a = NewHexCoordinate (Q a) (R a)"
proof -
  from assms have "S a = - Q a - R a"
    by (simp add: cube_ok_def algebra_simps add_eq_0_iff)
  then show ?thesis by (simp add: NewHexCoordinate_def)
qed

lemma Distance_New_neighbor:
  "n \<in> set (Neighbors (NewHexCoordinate q r)) \<Longrightarrow> Distance (NewHexCoordinate q r) n = 1"
  unfolding Neighbors_unfold
  by (auto simp add: Distance_def NewHexCoordinate_def abs64_one abs64_minus_one abs64_zero
      div64_two_two)

lemma Distance_neighbor:
  assumes "cube_ok a" and "n \<in> set (Neighbors a)"
  shows "Distance a n = 1"
proof -
  from assms(1) have "a = NewHexCoordinate (Q a) (R a)" by (rule cube_ok_eq_New)
  with assms(2) Distance_New_neighbor [of n "Q a" "R a"] show ?thesis by simp
qed

lemma distinct_Neighbors: "distinct (Neighbors a)"
  by (simp add: Neighbors_unfold NewHexCoordinate_def)

text \<open>
  C9. The constructor always yields \<open>Q + R + S = 0\<close> (in \<open>int64\<close> arithmetic, which is
  what \<open>validateHexCoordinate\<close> tests). \<open>Neighbors a\<close> has exactly six entries, they
  are pairwise distinct, and they come in the order of the direction table: East
  \<open>(+1, 0)\<close>, NorthEast \<open>(+1, -1)\<close>, NorthWest \<open>(0, -1)\<close>, West \<open>(-1, 0)\<close>, SouthWest
  \<open>(-1, +1)\<close>, SouthEast \<open>(0, +1)\<close>. When \<open>a\<close> is a cube coordinate (\<open>Q + R + S = 0\<close>,
  the invariant of the data model), each of the six is at \<open>Distance\<close> exactly 1 from
  \<open>a\<close>. All of this holds with wrap-around, for every \<open>int64\<close> value.
\<close>

theorem Neighbors_six_distinct_adjacent_canonical:
  "cube_ok (NewHexCoordinate q r) \<and>
   length (Neighbors a) = 6 \<and>
   distinct (Neighbors a) \<and>
   Neighbors a =
     [NewHexCoordinate (Q a + 1) (R a), NewHexCoordinate (Q a + 1) (R a - 1),
      NewHexCoordinate (Q a) (R a - 1), NewHexCoordinate (Q a - 1) (R a),
      NewHexCoordinate (Q a - 1) (R a + 1), NewHexCoordinate (Q a) (R a + 1)] \<and>
   (cube_ok a \<longrightarrow> (\<forall>n \<in> set (Neighbors a). Distance a n = 1))"
proof -
  have "length (Neighbors a) = 6" by (simp add: Neighbors_unfold)
  moreover have "cube_ok a \<longrightarrow> (\<forall>n \<in> set (Neighbors a). Distance a n = 1)"
    using Distance_neighbor by blast
  ultimately show ?thesis
    using cube_ok_New distinct_Neighbors Neighbors_unfold by blast
qed

theorem Neighbors_six_distinct_adjacent_canonical_witness:
  "cube_ok (NewHexCoordinate 3 (- 5)) \<and>
   Neighbors (NewHexCoordinate 3 (- 5)) =
     [\<lparr>Q = 4, R = - 5, S = 1\<rparr>, \<lparr>Q = 4, R = - 6, S = 2\<rparr>, \<lparr>Q = 3, R = - 6, S = 3\<rparr>,
      \<lparr>Q = 2, R = - 5, S = 3\<rparr>, \<lparr>Q = 2, R = - 4, S = 2\<rparr>, \<lparr>Q = 3, R = - 4, S = 1\<rparr>] \<and>
   distinct (Neighbors (NewHexCoordinate 3 (- 5))) \<and>
   Distance (NewHexCoordinate 3 (- 5)) \<lparr>Q = 4, R = - 5, S = 1\<rparr> = 1 \<and>
   Distance (NewHexCoordinate 3 (- 5)) \<lparr>Q = 2, R = - 4, S = 2\<rparr> = 1"
  using Neighbors_six_distinct_adjacent_canonical [of 3 "- 5" "NewHexCoordinate 3 (- 5)"]
  by (simp add: NewHexCoordinate_def)

section \<open>Structural stage\<close>

lemma nonZeroParents_filter: "nonZeroParents ps = length (filter (\<lambda>p. p \<noteq> 0) ps)"
  by (induction ps) simp_all

lemma validateBasicStructure_rejects:
  "(validateBasicStructure h \<noteq> None) =
     (6 < unat (NeighborCount h) \<or>
      length (filter (\<lambda>p. p \<noteq> 0) (elems (ParentHashes h))) \<noteq> unat (NeighborCount h) \<or>
      (Number h = 0 \<and> NeighborCount h \<noteq> 0) \<or>
      (Number h \<noteq> 0 \<and> NeighborCount h = 0))"
  by (auto simp add: validateBasicStructure_def nonZeroParents_filter word_less_nat_alt
      unat_gt_0 unat_eq_0)

text \<open>
  C5. \<open>validateBasicStructure\<close> rejects a header exactly when its declared neighbor
  count exceeds 6, or the number of non-empty parent slots differs from the declared
  count, or it is genesis (number 0) with a non-zero count, or it is non-genesis with
  count 0. In particular a header with declared count \<open>k\<close> and \<open>k + 1\<close> or \<open>k - 1\<close>
  non-empty parent slots is rejected.
\<close>

theorem validateBasicStructure_rejects_exactly:
  "(validateBasicStructure h \<noteq> None) =
     (6 < unat (NeighborCount h) \<or>
      length (filter (\<lambda>p. p \<noteq> 0) (elems (ParentHashes h))) \<noteq> unat (NeighborCount h) \<or>
      (Number h = 0 \<and> NeighborCount h \<noteq> 0) \<or>
      (Number h \<noteq> 0 \<and> NeighborCount h = 0)) \<and>
   (length (filter (\<lambda>p. p \<noteq> 0) (elems (ParentHashes h))) = unat (NeighborCount h) + 1 \<or>
    length (filter (\<lambda>p. p \<noteq> 0) (elems (ParentHashes h))) + 1 = unat (NeighborCount h)
      \<longrightarrow> validateBasicStructure h \<noteq> None)"
proof -
  have "length (filter (\<lambda>p. p \<noteq> 0) (elems (ParentHashes h))) = unat (NeighborCount h) + 1 \<or>
        length (filter (\<lambda>p. p \<noteq> 0) (elems (ParentHashes h))) + 1 = unat (NeighborCount h)
      \<longrightarrow> validateBasicStructure h \<noteq> None"
    unfolding validateBasicStructure_rejects by arith
  with validateBasicStructure_rejects [of h] show ?thesis by blast
qed

theorem validateBasicStructure_rejects_exactly_witness:
  "validateBasicStructure example_header = None \<and>
   validateBasicStructure (example_header\<lparr>NeighborCount := 2,
      ParentHashes := Array6 0x1234 0x5678 0x9abc 0 0 0\<rparr>) = Some NeighborCountMismatch \<and>
   validateBasicStructure (example_header\<lparr>NeighborCount := 2\<rparr>) = Some NeighborCountMismatch \<and>
   validateBasicStructure (example_header\<lparr>NeighborCount := 7\<rparr>) = Some TooManyNeighbors \<and>
   validateBasicStructure (example_header\<lparr>Number := 0\<rparr>) = Some GenesisMustHaveZeroNeighbors \<and>
   validateBasicStructure (example_header\<lparr>NeighborCount := 0,
      ParentHashes := Array6 0 0 0 0 0 0\<rparr>) = Some NonGenesisNeedsParent"
  using validateBasicStructure_rejects_exactly [of example_header]
    validateBasicStructure_rejects_exactly [of "example_header\<lparr>NeighborCount := 2,
      ParentHashes := Array6 0x1234 0x5678 0x9abc 0 0 0\<rparr>"]
    validateBasicStructure_rejects_exactly [of "example_header\<lparr>NeighborCount := 2\<rparr>"]
  by (simp add: validateBasicStructure_def example_header_def)

section \<open>Neighbor-count stage\<close>

text \<open>
  C4, as stated, fails: the claim exempts a header from the minimum while the chain is
  below that height. At height 1 with one neighbor and the default minimum of 3 the
  stage rejects.
\<close>

theorem validateNeighborCount_low_height_counterexample:
  "Number example_header = 1 \<and>
   uint (Number example_header) < MinNeighbors DefaultHexaProofConfig \<and>
   NeighborCount example_header = 1 \<and>
   validateNeighborCount DefaultHexaProofConfig example_header = Some InsufficientNeighbors"
  by (simp add: validateNeighborCount_def DefaultHexaProofConfig_def example_header_def)

text \<open>
  C4, amended. \<open>validateNeighborCount\<close> accepts exactly when the declared count does
  not exceed \<open>MaxNeighbors\<close> and, unless the header is genesis (number 0), the count is
  at least \<open>MinNeighbors\<close>. Genesis is the only exemption; the height of the chain is
  not consulted.
\<close>

theorem validateNeighborCount_accepts_exactly:
  "(validateNeighborCount config h = None) =
     (uint (NeighborCount h) \<le> MaxNeighbors config \<and>
      (Number h = 0 \<or> MinNeighbors config \<le> uint (NeighborCount h)))"
  by (auto simp add: validateNeighborCount_def word_gt_0)

theorem validateNeighborCount_accepts_exactly_witness:
  "validateNeighborCount DefaultHexaProofConfig
     (example_header\<lparr>NeighborCount := 3\<rparr>) = None \<and>
   validateNeighborCount DefaultHexaProofConfig
     (example_header\<lparr>NeighborCount := 2\<rparr>) \<noteq> None \<and>
   validateNeighborCount DefaultHexaProofConfig
     (example_header\<lparr>Number := 0, NeighborCount := 0\<rparr>) = None \<and>
   validateNeighborCount DefaultHexaProofConfig
     (example_header\<lparr>NeighborCount := 7\<rparr>) \<noteq> None"
  using validateNeighborCount_accepts_exactly [of DefaultHexaProofConfig
      "example_header\<lparr>NeighborCount := 3\<rparr>"]
    validateNeighborCount_accepts_exactly [of DefaultHexaProofConfig
      "example_header\<lparr>NeighborCount := 2\<rparr>"]
    validateNeighborCount_accepts_exactly [of DefaultHexaProofConfig
      "example_header\<lparr>Number := 0, NeighborCount := 0\<rparr>"]
    validateNeighborCount_accepts_exactly [of DefaultHexaProofConfig
      "example_header\<lparr>NeighborCount := 7\<rparr>"]
  by (simp add: DefaultHexaProofConfig_def example_header_def)

section \<open>Timestamp stage\<close>

lemma resolvedParents_Nil: "resolvedParents chain [] = []"
  by (simp add: resolvedParents_def map_filter_simps)

lemma resolvedParents_Cons:
  "resolvedParents chain (p # ps) =
     (if p = 0 then resolvedParents chain ps
      else case chain p of None \<Rightarrow> resolvedParents chain ps
           | Some ph \<Rightarrow> ph # resolvedParents chain ps)"
  by (simp add: resolvedParents_def map_filter_simps split: option.splits)

lemma maxParentTime_loop_le:
  "(t \<le> maxParentTime_loop chain m ps) =
     (t \<le> m \<or> (\<exists>ph \<in> set (resolvedParents chain ps). t \<le> Time ph))"
proof (induction ps arbitrary: m)
  case Nil
  then show ?case by (simp add: resolvedParents_Nil)
next
  case (Cons p ps)
  then show ?case
    by (auto simp add: resolvedParents_Cons split: option.splits)
qed

text \<open>
  C8, as stated, fails: a header with no resolved parent and time 0 is rejected,
  although no parent has a time stamp at or above its own and its time is within
  \<open>now + 15\<close>. The running maximum of the source starts at 0.
\<close>

theorem validateTimestamp_time_zero_counterexample:
  "resolvedParents (\<lambda>x. None) (elems (ParentHashes (header (HexGenesisBlock 0 0 0)))) = [] \<and>
   unat (Time (header (HexGenesisBlock 0 0 0))) \<le> unat (1000 :: uint64) + 15 \<and>
   validateTimestamp 1000 (\<lambda>x. None) (header (HexGenesisBlock 0 0 0)) = Some InvalidTimestamp"
  by (simp add: validateTimestamp_def HexGenesisBlock_def resolvedParents_Cons
      resolvedParents_Nil)

text \<open>
  C8, amended. \<open>validateTimestamp\<close> accepts exactly when the header's time is strictly
  greater than the time of every resolved parent, is not 0, and does not exceed
  \<open>now + 15\<close> as computed in \<open>uint64\<close>. A header whose time equals a resolved parent's
  time is therefore rejected.
\<close>

theorem validateTimestamp_accepts_exactly:
  "(validateTimestamp now chain h = None) =
     ((\<forall>ph \<in> set (resolvedParents chain (elems (ParentHashes h))). Time ph < Time h) \<and>
      0 < Time h \<and> Time h \<le> now + 15)"
  by (auto simp add: validateTimestamp_def maxParentTime_loop_le word_gt_0 not_le not_less)

theorem validateTimestamp_accepts_exactly_witness:
  "resolvedParents example_chain (elems (ParentHashes example_header)) = [example_parent] \<and>
   validateTimestamp 1000 example_chain example_header = None \<and>
   validateTimestamp 1000 example_chain (example_header\<lparr>Time := 900\<rparr>) = Some InvalidTimestamp \<and>
   validateTimestamp 1000 example_chain (example_header\<lparr>Time := 1016\<rparr>)
     = Some TimestampTooFarInFuture"
  using validateTimestamp_accepts_exactly [of 1000 example_chain example_header]
     validateTimestamp_accepts_exactly [of 1000 example_chain "example_header\<lparr>Time := 900\<rparr>"]
  by (simp add: validateTimestamp_def example_header_def example_chain_def example_parent_def
      resolvedParents_Cons resolvedParents_Nil)

section \<open>Proof stage\<close>

lemma validSignatures_filter: "validSignatures sigs = length (filter (\<lambda>s. s \<noteq> []) sigs)"
  by (induction sigs) simp_all

lemma validSignatures_map:
  "validSignatures sigs = length (filter Not (map (\<lambda>s. s = []) sigs))"
  by (induction sigs) simp_all

lemma validSignatures_pattern:
  assumes "map (\<lambda>s. s = []) sigs' = map (\<lambda>s. s = []) sigs"
  shows "validSignatures sigs' = validSignatures sigs"
  unfolding validSignatures_map using assms by (rule arg_cong)

lemma proofParents_loop_None:
  "(proofParents_loop chain ps = None) = (\<forall>p \<in> set ps. p \<noteq> 0 \<longrightarrow> chain p \<noteq> None)"
  by (induction ps) auto

lemma validateHexaProof_None:
  "(validateHexaProof chain h = None) =
     (Timestamp (HexProof h) \<noteq> 0 \<and> Time h \<le> Timestamp (HexProof h) \<and>
      (\<forall>p \<in> set (elems (ParentHashes h)). p \<noteq> 0 \<longrightarrow> chain p \<noteq> None) \<and>
      unat (NeighborCount h)
        \<le> length (filter (\<lambda>s. s \<noteq> []) (elems (NeighborSignatures (HexProof h)))))"
  using proofParents_loop_None [of chain "elems (ParentHashes h)"]
  by (auto simp add: validateHexaProof_def validSignatures_filter not_less split: option.splits)

lemma ValidateHexProof_None:
  "(ValidateHexProof block = None) =
     (Timestamp (HexProof (header block)) \<noteq> 0 \<and>
      Time (header block) \<le> Timestamp (HexProof (header block)) \<and>
      unat (NeighborCount (header block))
        \<le> length (filter (\<lambda>s. s \<noteq> []) (elems (NeighborSignatures (HexProof (header block))))))"
  by (auto simp add: ValidateHexProof_def validSignatures_filter not_less)

lemma validateHexaProof_signature_bytes:
  assumes "map (\<lambda>s. s = []) (elems sigs') = map (\<lambda>s. s = []) (elems (NeighborSignatures (HexProof h)))"
  shows "validateHexaProof chain (h\<lparr>HexProof := (HexProof h)\<lparr>NeighborSignatures := sigs'\<rparr>\<rparr>)
           = validateHexaProof chain h"
  using validSignatures_pattern [OF assms] by (simp add: validateHexaProof_def)

text \<open>
  C1, as stated, fails: neither proof check verifies a signature. The example header
  declares one neighbor and carries the single byte \<open>0\<close> as its only signature; a check
  that demands 65-byte signatures does not pass it, yet the engine's proof stage and
  the block validator's proof check both accept.
\<close>



theorem proof_stage_unverified_signature_counterexample:
  "NeighborCount example_header = 1 \<and>
   NeighborSignatures (HexProof example_header) = Array6 [0] [] [] [] [] [] \<and>
   \<not> present_signatures_verify (\<lambda>msg sig. length sig = 65)
        (example_Hash example_header) (HexProof example_header) \<and>
   validateHexaProof example_chain example_header = None \<and>
   ValidateHexProof (block_of example_header) = None"
  by (simp add: example_header_def example_chain_def empty_HexaProof_def block_of_def
      present_signatures_verify_def validateHexaProof_def ValidateHexProof_def)

text \<open>
  C1, amended. The engine's proof stage accepts exactly when the proof time stamp is
  non-zero and not before the header's time, every non-empty parent hash resolves,
  and at least as many signature slots are non-empty as the declared neighbor count;
  the block validator's proof check is the same without the parent test. So a header
  with fewer than \<open>k\<close> non-empty slots for declared count \<open>k\<close> is always rejected, and the
  bytes of a signature play no part: replacing the signatures by others with the same
  empty slots leaves the verdict unchanged.
\<close>

theorem proof_stage_accepts_exactly:
  "(validateHexaProof chain h = None) =
     (Timestamp (HexProof h) \<noteq> 0 \<and> Time h \<le> Timestamp (HexProof h) \<and>
      (\<forall>p \<in> set (elems (ParentHashes h)). p \<noteq> 0 \<longrightarrow> chain p \<noteq> None) \<and>
      unat (NeighborCount h)
        \<le> length (filter (\<lambda>s. s \<noteq> []) (elems (NeighborSignatures (HexProof h))))) \<and>
   (ValidateHexProof block = None) =
     (Timestamp (HexProof (header block)) \<noteq> 0 \<and>
      Time (header block) \<le> Timestamp (HexProof (header block)) \<and>
      unat (NeighborCount (header block))
        \<le> length (filter (\<lambda>s. s \<noteq> []) (elems (NeighborSignatures (HexProof (header block)))))) \<and>
   (map (\<lambda>s. s = []) (elems sigs') = map (\<lambda>s. s = []) (elems (NeighborSignatures (HexProof h)))
      \<longrightarrow> validateHexaProof chain (h\<lparr>HexProof := (HexProof h)\<lparr>NeighborSignatures := sigs'\<rparr>\<rparr>)
            = validateHexaProof chain h)"
  using validateHexaProof_None [of chain h] ValidateHexProof_None [of block]
    validateHexaProof_signature_bytes [of sigs' h chain]
  by blast

theorem proof_stage_accepts_exactly_witness:
  "validateHexaProof example_chain example_header = None \<and>
   validateHexaProof example_chain
     (example_header\<lparr>HexProof := (HexProof example_header)
        \<lparr>NeighborSignatures := Array6 [1, 2, 3] [] [] [] [] []\<rparr>\<rparr>) = None \<and>
   validateHexaProof example_chain
     (example_header\<lparr>HexProof := (HexProof example_header)
        \<lparr>NeighborSignatures := Array6 [] [] [] [] [] []\<rparr>\<rparr>) = Some InsufficientSignatures \<and>
   ValidateHexProof (block_of example_header) = None"
  using proof_stage_accepts_exactly [of example_chain example_header "block_of example_header"
      "Array6 [1, 2, 3] [] [] [] [] []"]
    proof_stage_accepts_exactly [of example_chain
      "example_header\<lparr>HexProof := (HexProof example_header)
        \<lparr>NeighborSignatures := Array6 [] [] [] [] [] []\<rparr>\<rparr>" "block_of example_header"
      "Array6 [] [] [] [] [] []"]
  by (simp add: example_header_def example_chain_def empty_HexaProof_def block_of_def
      validateHexaProof_def)

section \<open>The pipeline\<close>

lemma verifyHexHeader_None_iff:
  "(verifyHexHeader Hash config now chain h = None) =
     (validateBasicStructure h = None \<and> validateParents chain h = None \<and>
      validateMeshTopology Hash chain h = None \<and> validateNeighborCount config h = None \<and>
      validateTimestamp now chain h = None \<and> validateHexaProof chain h = None)"
  by (auto simp add: verifyHexHeader_def split: option.splits)

lemma genesis_nonzero_count_rejected:
  assumes "Number h = 0" and "NeighborCount h \<noteq> 0"
  shows "verifyHexHeader Hash config now chain h \<noteq> None"
proof -
  from assms have "validateBasicStructure h \<noteq> None"
    by (simp add: validateBasicStructure_def)
  then show ?thesis by (simp add: verifyHexHeader_None_iff)
qed



lemma validateNeighborCount_converted:
  "0 < Number h \<Longrightarrow> NeighborCount h = 1 \<Longrightarrow>
     validateNeighborCount DefaultHexaProofConfig h = Some InsufficientNeighbors"
  by (simp add: validateNeighborCount_def DefaultHexaProofConfig_def)

text \<open>
  C7, as stated, fails in one point: not every header with number above 0 is rejected
  at the neighbor-count stage. A header whose parent is unknown never reaches that
  stage; it is rejected at the parent stage, with that stage's error.
\<close>

theorem VerifyHeader_unknown_parent_counterexample:
  "0 < Number example_eth \<and>
   VerifyHeader example_Hash DefaultHexaProofConfig 1000 (\<lambda>x. None) example_eth
     = Some (UnknownParent 0x1234 0)"
  by (simp add: VerifyHeader_def convertToHexHeader_def verifyHexHeader_def
      validateBasicStructure_def validateParents_def example_eth_def example_parent_def)

text \<open>
  C7, amended. \<open>convertToHexHeader\<close> always succeeds and yields a header with neighbor
  count 1, the single parent hash in slot 0 (the other slots empty) and the origin as
  position. Under the default configuration \<open>VerifyHeader\<close> rejects every header with
  number above 0 no later than the neighbor-count stage: a header that passes the
  structural, parent and topology stages is rejected with the insufficient-neighbors
  error, and one that fails an earlier stage is rejected with that stage's error. A
  \<open>types.Header\<close> has no multi-parent or positional field for the verdict to depend on.
\<close>

theorem VerifyHeader_single_parent_rejected:
  "\<exists>hex. convertToHexHeader eth = Inr hex \<and>
      NeighborCount hex = 1 \<and>
      ParentHashes hex = Array6 (ParentHash eth) 0 0 0 0 0 \<and>
      HexPosition hex = NewHexCoordinate 0 0 \<and>
      (0 < Number eth \<longrightarrow>
         VerifyHeader Hash DefaultHexaProofConfig now chain eth \<noteq> None \<and>
         VerifyHeader Hash DefaultHexaProofConfig now chain eth =
           (case validateBasicStructure hex of Some e \<Rightarrow> Some e | None \<Rightarrow>
            case validateParents chain hex of Some e \<Rightarrow> Some e | None \<Rightarrow>
            case validateMeshTopology Hash chain hex of Some e \<Rightarrow> Some e | None \<Rightarrow>
            Some InsufficientNeighbors))"
proof -
  obtain hex where hex: "convertToHexHeader eth = Inr hex"
    by (simp add: convertToHexHeader_def)
  then have f: "NeighborCount hex = 1" "ParentHashes hex = Array6 (ParentHash eth) 0 0 0 0 0"
    "HexPosition hex = NewHexCoordinate 0 0" "Number hex = Number eth"
    by (auto simp add: convertToHexHeader_def)
  have "0 < Number eth \<longrightarrow>
         VerifyHeader Hash DefaultHexaProofConfig now chain eth \<noteq> None \<and>
         VerifyHeader Hash DefaultHexaProofConfig now chain eth =
           (case validateBasicStructure hex of Some e \<Rightarrow> Some e | None \<Rightarrow>
            case validateParents chain hex of Some e \<Rightarrow> Some e | None \<Rightarrow>
            case validateMeshTopology Hash chain hex of Some e \<Rightarrow> Some e | None \<Rightarrow>
            Some InsufficientNeighbors)"
    using validateNeighborCount_converted [of hex] f
    by (auto simp add: VerifyHeader_def hex verifyHexHeader_def split: option.splits)
  with hex f show ?thesis by blast
qed

theorem VerifyHeader_single_parent_rejected_witness:
  "0 < Number example_eth \<and>
   VerifyHeader example_Hash DefaultHexaProofConfig 1000 example_chain example_eth
     = Some InsufficientNeighbors"
  using VerifyHeader_single_parent_rejected [of example_eth example_Hash 1000 example_chain]
  by (auto simp add: convertToHexHeader_def validateBasicStructure_def validateParents_def
      validateMeshTopology_def example_eth_def example_parent_def example_chain_def
      example_Hash_def)

section \<open>State transitions\<close>

lemma parentStates_loop_Inr:
  "(\<exists>sts. parentStates_loop bc acc ps = Inr sts) =
     (\<forall>p \<in> set ps. p \<noteq> 0 \<longrightarrow> GetState bc p \<noteq> None)"
  by (induction ps arbitrary: acc) (auto split: option.splits)

lemma parentStates_loop_Nil:
  "(parentStates_loop bc acc ps = Inr []) = (acc = [] \<and> (\<forall>p \<in> set ps. p = 0))"
proof (induction ps arbitrary: acc)
  case Nil
  then show ?case by auto
next
  case (Cons p ps)
  then show ?case by (auto split: option.splits)
qed

lemma ValidateStateTransitions_None:
  "(ValidateStateTransitions bc block = None) =
     ((\<forall>p \<in> set (elems (ParentHashes (header block))). p \<noteq> 0 \<longrightarrow> GetState bc p \<noteq> None) \<and>
      ((\<forall>p \<in> set (elems (ParentHashes (header block))). p = 0) \<longrightarrow> Number (header block) = 0))"
proof (cases "parentStates_loop bc [] (elems (ParentHashes (header block)))")
  case (Inl e)
  then have "\<not> (\<exists>sts. parentStates_loop bc [] (elems (ParentHashes (header block))) = Inr sts)"
    by simp
  then have no: "\<not> (\<forall>p \<in> set (elems (ParentHashes (header block))).
      p \<noteq> 0 \<longrightarrow> GetState bc p \<noteq> None)"
    using parentStates_loop_Inr [of bc "[]" "elems (ParentHashes (header block))"] by blast
  from Inl have "ValidateStateTransitions bc block = Some e"
    by (simp add: ValidateStateTransitions_def)
  with no show ?thesis by (simp del: not_None_eq)
next
  case (Inr sts)
  then have ok: "\<forall>p \<in> set (elems (ParentHashes (header block))).
      p \<noteq> 0 \<longrightarrow> GetState bc p \<noteq> None"
    using parentStates_loop_Inr [of bc "[]" "elems (ParentHashes (header block))"] by blast
  have nil: "(sts = []) = (\<forall>p \<in> set (elems (ParentHashes (header block))). p = 0)"
    using Inr parentStates_loop_Nil [of bc "[]" "elems (ParentHashes (header block))"] by auto
  show ?thesis
  proof (cases sts)
    case Nil
    with Inr ok nil show ?thesis by (simp add: ValidateStateTransitions_def)
  next
    case (Cons s rest)
    with Inr ok nil show ?thesis by (auto simp add: ValidateStateTransitions_def)
  qed
qed

lemma ValidateStateTransitions_Root:
  "ValidateStateTransitions bc (block\<lparr>header := (header block)\<lparr>Root := r\<rparr>\<rparr>)
     = ValidateStateTransitions bc block"
  by (simp add: ValidateStateTransitions_def)

text \<open>
  C2, as stated, fails: the same two parents, with the same two states, are given to
  two candidates that declare different state roots, and both are accepted. Whatever
  the root of the merged state is, it differs from at least one of the two declared
  roots, so a mismatch is accepted.
\<close>

theorem ValidateStateTransitions_root_ignored_counterexample:
  "ParentHashes (header (two_parent_block 1)) = ParentHashes (header (two_parent_block 2)) \<and>
   NeighborCount (header (two_parent_block 1)) = 2 \<and>
   Root (header (two_parent_block 1)) = 1 \<and>
   Root (header (two_parent_block 2)) = 2 \<and>
   ValidateStateTransitions example_bc (two_parent_block 1) = None \<and>
   ValidateStateTransitions example_bc (two_parent_block 2) = None"
  by (simp add: two_parent_block_def block_of_def example_header_def example_bc_def
      ValidateStateTransitions_def)

text \<open>
  C2, amended. \<open>ValidateStateTransitions\<close> fetches the state of every non-empty parent
  and accepts exactly when every fetch succeeds and, if there is no parent at all, the
  block is genesis. It merges nothing and compares nothing with the declared state
  root: the verdict is the same for every declared root.
\<close>

theorem ValidateStateTransitions_accepts_exactly:
  "(ValidateStateTransitions bc block = None) =
     ((\<forall>p \<in> set (elems (ParentHashes (header block))). p \<noteq> 0 \<longrightarrow> GetState bc p \<noteq> None) \<and>
      ((\<forall>p \<in> set (elems (ParentHashes (header block))). p = 0) \<longrightarrow> Number (header block) = 0)) \<and>
   ValidateStateTransitions bc (block\<lparr>header := (header block)\<lparr>Root := r\<rparr>\<rparr>)
     = ValidateStateTransitions bc block"
  using ValidateStateTransitions_None [of bc block] ValidateStateTransitions_Root [of bc r block]
  by blast

theorem ValidateStateTransitions_accepts_exactly_witness:
  "ValidateStateTransitions example_bc (two_parent_block 1) = None \<and>
   ValidateStateTransitions example_bc
     ((two_parent_block 1)\<lparr>header := (header (two_parent_block 1))\<lparr>Root := 77\<rparr>\<rparr>) = None \<and>
   ValidateStateTransitions example_bc
     (block_of (example_header\<lparr>ParentHashes := Array6 0x1234 0x4321 0 0 0 0\<rparr>))
     = Some (FailedToGetParentState 0x4321)"
  using ValidateStateTransitions_accepts_exactly [of example_bc "two_parent_block 1" 77]
    ValidateStateTransitions_accepts_exactly [of example_bc
      "block_of (example_header\<lparr>ParentHashes := Array6 0x1234 0x4321 0 0 0 0\<rparr>)" 77]
  by (simp add: two_parent_block_def block_of_def example_header_def example_bc_def
      ValidateStateTransitions_def)

section \<open>Topology\<close>

lemma neighborPosition_loop_None:
  "(neighborPosition_loop bc vs ps = None) =
     (\<forall>p \<in> set ps. p \<noteq> 0 \<longrightarrow>
        (\<forall>pb. GetHexBlock bc p = Some pb \<longrightarrow> HexPosition (header pb) \<in> set vs))"
  by (induction ps) (auto split: option.splits)

lemma neighborPosition_loop_err:
  "neighborPosition_loop bc vs ps = Some e \<Longrightarrow> e = ParentAtInvalidNeighborPosition"
  by (induction ps) (auto split: option.splits if_splits)

lemma HexBlockValidator_validateMeshTopology_None:
  "(HexBlockValidator_validateMeshTopology bc block = None) =
     (\<forall>p \<in> set (elems (ParentHashes (header block))). p \<noteq> 0 \<longrightarrow>
        (\<forall>pb. GetHexBlock bc p = Some pb \<longrightarrow>
           HexPosition (header pb) \<in> set (Neighbors (HexPosition (header block)))))"
  by (simp add: HexBlockValidator_validateMeshTopology_def neighborPosition_loop_None)

lemma HexBlockValidator_distance_two:
  assumes "cube_ok (HexPosition (header block))"
    and "p \<in> set (elems (ParentHashes (header block)))" and "p \<noteq> 0"
    and "GetHexBlock bc p = Some pb"
    and "Distance (HexPosition (header block)) (HexPosition (header pb)) = 2"
  shows "HexBlockValidator_validateMeshTopology bc block = Some ParentAtInvalidNeighborPosition"
proof -
  have "HexPosition (header pb) \<notin> set (Neighbors (HexPosition (header block)))"
  proof
    assume "HexPosition (header pb) \<in> set (Neighbors (HexPosition (header block)))"
    with assms(1) have "Distance (HexPosition (header block)) (HexPosition (header pb)) = 1"
      by (rule Distance_neighbor)
    with assms(5) show False by simp
  qed
  with assms(2,3,4) have "HexBlockValidator_validateMeshTopology bc block \<noteq> None"
    unfolding HexBlockValidator_validateMeshTopology_None by blast
  then obtain e where e: "HexBlockValidator_validateMeshTopology bc block = Some e"
    by blast
  then have "e = ParentAtInvalidNeighborPosition"
    unfolding HexBlockValidator_validateMeshTopology_def by (rule neighborPosition_loop_err)
  with e show ?thesis by simp
qed

lemma circular_loop_range:
  "circular_loop Hash chain h ps \<in> {None, Some SelfReference, Some CircularReference}"
  by (induction ps) (auto simp add: convertToHexHeader_def split: option.splits)

lemma validateMeshTopology_range:
  "validateMeshTopology Hash chain h \<in> {None, Some SelfReference, Some CircularReference}"
  using circular_loop_range [of Hash chain h "elems (ParentHashes h)"]
  by (auto simp add: validateMeshTopology_def split: option.splits)

text \<open>
  C3, as stated, fails for the consensus engine's topology stage. The candidate sits
  at \<open>(2, 0)\<close>; its parent resolves, has a smaller number and, converted as the stage
  converts it, sits at the origin, at distance 2. The structural, parent and topology
  stages of the engine all accept.
\<close>

theorem engine_topology_distance_two_counterexample:
  "example_chain 0x1234 = Some example_parent \<and>
   Number example_parent < Number (example_header\<lparr>HexPosition := NewHexCoordinate 2 0\<rparr>) \<and>
   (case convertToHexHeader example_parent of
      Inl e \<Rightarrow> False
    | Inr parentHexHeader \<Rightarrow>
        HexPosition parentHexHeader
          \<notin> set (Neighbors (HexPosition (example_header\<lparr>HexPosition := NewHexCoordinate 2 0\<rparr>))) \<and>
        Distance (HexPosition (example_header\<lparr>HexPosition := NewHexCoordinate 2 0\<rparr>))
          (HexPosition parentHexHeader) = 2) \<and>
   validateBasicStructure (example_header\<lparr>HexPosition := NewHexCoordinate 2 0\<rparr>) = None \<and>
   validateParents example_chain (example_header\<lparr>HexPosition := NewHexCoordinate 2 0\<rparr>) = None \<and>
   validateMeshTopology example_Hash example_chain
     (example_header\<lparr>HexPosition := NewHexCoordinate 2 0\<rparr>) = None"
  by (simp add: example_chain_def example_parent_def example_header_def example_Hash_def
      convertToHexHeader_def validateBasicStructure_def validateParents_def
      validateMeshTopology_def Neighbors_unfold NewHexCoordinate_def Distance_def abs64_def
      div64_def signed_divide_int_def word_sless_alt)

text \<open>
  C3, amended. The block validator's topology check accepts exactly when every
  non-empty parent hash that resolves to a known block has its position among the six
  neighbors of the candidate's position; so a resolved parent anywhere else rejects
  the candidate, whatever its number. In particular, when the candidate's position is
  a cube coordinate, a resolved parent at distance 2 rejects it. The consensus
  engine's topology stage returns only the self-reference and circular-reference
  errors: it never rejects for a position.
\<close>

theorem HexBlockValidator_topology_adjacent_parents:
  "(HexBlockValidator_validateMeshTopology bc block = None) =
     (\<forall>p \<in> set (elems (ParentHashes (header block))). p \<noteq> 0 \<longrightarrow>
        (\<forall>pb. GetHexBlock bc p = Some pb \<longrightarrow>
           HexPosition (header pb) \<in> set (Neighbors (HexPosition (header block))))) \<and>
   (cube_ok (HexPosition (header block)) \<and>
    p \<in> set (elems (ParentHashes (header block))) \<and> p \<noteq> 0 \<and>
    GetHexBlock bc p = Some pb \<and>
    Distance (HexPosition (header block)) (HexPosition (header pb)) = 2
      \<longrightarrow> HexBlockValidator_validateMeshTopology bc block = Some ParentAtInvalidNeighborPosition) \<and>
   validateMeshTopology Hash chain h \<in> {None, Some SelfReference, Some CircularReference}"
  using HexBlockValidator_validateMeshTopology_None [of bc block]
    HexBlockValidator_distance_two [of block p bc pb]
    validateMeshTopology_range [of Hash chain h]
  by blast

theorem HexBlockValidator_topology_adjacent_parents_witness:
  "HexBlockValidator_validateMeshTopology example_bc (block_of example_header) = None \<and>
   cube_ok (NewHexCoordinate 2 0) \<and>
   GetHexBlock example_bc 0x1234 = Some (HexGenesisBlock 900 0 0) \<and>
   Distance (NewHexCoordinate 2 0) (HexPosition (header (HexGenesisBlock 900 0 0))) = 2 \<and>
   HexBlockValidator_validateMeshTopology example_bc
     (block_of (example_header\<lparr>HexPosition := NewHexCoordinate 2 0\<rparr>))
     = Some ParentAtInvalidNeighborPosition"
  using HexBlockValidator_topology_adjacent_parents [of example_bc "block_of example_header"
      "0x1234" "HexGenesisBlock 900 0 0" example_Hash example_chain example_header]
    HexBlockValidator_topology_adjacent_parents [of example_bc
      "block_of (example_header\<lparr>HexPosition := NewHexCoordinate 2 0\<rparr>)"
      "0x1234" "HexGenesisBlock 900 0 0" example_Hash example_chain example_header]
  by (simp add: example_bc_def block_of_def example_header_def HexGenesisBlock_def
      Neighbors_unfold NewHexCoordinate_def cube_ok_def Distance_def abs64_def div64_def
      signed_divide_int_def word_sless_alt)

section \<open>The memoized proof hash\<close>

lemma length_be_bytes: "length (be_bytes n w) = n"
  by (induction n) simp_all

lemma be_bytes_numeral:
  "be_bytes (numeral k) w = ucast (drop_bit (8 * pred_numeral k) w) # be_bytes (pred_numeral k) w"
  by (simp add: numeral_eq_Suc)

lemma be_bytes_one: "be_bytes 1 w = [ucast w]"
  by simp

lemma rev_be_bytes_nth:
  "k < n \<Longrightarrow> rev (be_bytes n w) ! k = ucast (drop_bit (8 * k) w)"
proof (induction n)
  case 0
  then show ?case by simp
next
  case (Suc n)
  then show ?case
    by (cases "k = n") (simp_all add: nth_append length_be_bytes)
qed

text \<open>
  \<open>be_bytes\<close> is the big-endian encoding: putting the bytes together again, most
  significant first (\<open>word_rcat\<close> of the library), gives the word back.
\<close>

lemma word_rcat_be_bytes:
  fixes w :: "'a::len word"
  assumes "LENGTH('a) \<le> 8 * n"
  shows "(word_rcat (be_bytes n w) :: 'a word) = w"
proof (rule bit_word_eqI)
  fix m
  assume m: "m < LENGTH('a)"
  then have k: "m div 8 < n" using assms by auto
  have "bit (word_rcat (be_bytes n w) :: 'a word) m
      = bit (horner_sum uint (2 ^ LENGTH(8)) (rev (be_bytes n w))) m"
    using m by (simp add: word_rcat_def bit_word_of_int_iff)
  also have "\<dots> = bit (rev (be_bytes n w) ! (m div 8)) (m mod 8)"
    using k by (simp only: bit_horner_sum_uint_exp_iff) (simp add: length_be_bytes)
  also have "\<dots> = bit w (8 * (m div 8) + m mod 8)"
    using k by (simp add: rev_be_bytes_nth bit_ucast_iff bit_drop_bit_eq)
  also have "\<dots> = bit w m" by simp
  finally show "bit (word_rcat (be_bytes n w) :: 'a word) m = bit w m" .
qed

lemma Timestamp_bytes: "word_rcat (be_bytes 8 (ts :: uint64)) = ts"
  by (rule word_rcat_be_bytes) simp

lemma address_bytes: "word_rcat (be_bytes 20 (ad :: address)) = ad"
  by (rule word_rcat_be_bytes) simp

lemma HexaProof_Hash_twice:
  "fst (HexaProof_Hash sha256_sum (snd (HexaProof_Hash sha256_sum hp))) = fst (HexaProof_Hash sha256_sum hp)"
  by (simp add: HexaProof_Hash_def proof_preimage_def)

lemma HexaProof_Hash_computed:
  "ProofHash hp = 0 \<Longrightarrow>
     fst (HexaProof_Hash sha256_sum hp)
       = sha256_sum (concat (elems (NeighborSignatures hp)) @ StateProof hp @ MeshProof hp
           @ be_bytes 8 (Timestamp hp) @ concat (map (be_bytes 20) (ValidatorSet hp)))"
  by (simp add: HexaProof_Hash_def proof_preimage_def)

lemma HexaProof_Hash_stored:
  "ProofHash (snd (HexaProof_Hash sha256_sum hp)) = fst (HexaProof_Hash sha256_sum hp)"
  by (simp add: HexaProof_Hash_def)

lemma HexaProof_Hash_cached:
  "ProofHash hp \<noteq> 0 \<Longrightarrow> HexaProof_Hash sha256_sum hp = (ProofHash hp, hp)"
  by (simp add: HexaProof_Hash_def)

lemma HexaProof_Hash_after_mutation:
  "fst (HexaProof_Hash sha256_sum hp) \<noteq> 0 \<Longrightarrow>
     fst (HexaProof_Hash sha256_sum ((snd (HexaProof_Hash sha256_sum hp))
            \<lparr>NeighborSignatures := sigs, StateProof := sp, MeshProof := mp,
             Timestamp := ts, ValidatorSet := vs\<rparr>))
       = fst (HexaProof_Hash sha256_sum hp)"
  by (simp add: HexaProof_Hash_def split: if_splits)

lemma HexaProof_Hash_after_reset:
  "fst (HexaProof_Hash sha256_sum (hp\<lparr>NeighborSignatures := sigs, StateProof := sp, MeshProof := mp,
            Timestamp := ts, ValidatorSet := vs, ProofHash := 0\<rparr>))
     = sha256_sum (concat (elems sigs) @ sp @ mp @ be_bytes 8 ts @ concat (map (be_bytes 20) vs))"
  by (simp add: HexaProof_Hash_def proof_preimage_def)

text \<open>
  C10. For a proof whose cache is empty (\<open>ProofHash\<close> is the zero hash), \<open>Hash\<close> returns
  the SHA-256 digest of all content fields, written in this order: the six
  signatures, the state proof, the mesh proof, the time stamp and the validator
  addresses. The time stamp is written as eight bytes and each address as twenty, and
  these bytes determine the value: put together again, most significant byte first,
  they give the time stamp, or the address, back. \<open>Hash\<close> stores what it returns in
  \<open>ProofHash\<close>, and a second call returns the same value. A non-zero cache is returned
  as it is and left unchanged by \<open>Hash\<close>, so after a first call that returned a
  non-zero hash, changing any of the content fields does not change what \<open>Hash\<close>
  returns. Only resetting \<open>ProofHash\<close> to the zero hash makes \<open>Hash\<close> compute again,
  from the fields as they then are. The zero hash is the "not computed" mark of the
  source, hence the condition that the digest is not zero.
\<close>

theorem HexaProof_Hash_memoized:
  "fst (HexaProof_Hash sha256_sum (snd (HexaProof_Hash sha256_sum hp))) = fst (HexaProof_Hash sha256_sum hp) \<and>
   (ProofHash hp = 0 \<longrightarrow>
      fst (HexaProof_Hash sha256_sum hp)
        = sha256_sum (concat (elems (NeighborSignatures hp)) @ StateProof hp @ MeshProof hp
            @ be_bytes 8 (Timestamp hp) @ concat (map (be_bytes 20) (ValidatorSet hp)))) \<and>
   length (be_bytes 8 ts) = 8 \<and> word_rcat (be_bytes 8 ts) = ts \<and>
   length (be_bytes 20 ad) = 20 \<and> word_rcat (be_bytes 20 ad) = ad \<and>
   ProofHash (snd (HexaProof_Hash sha256_sum hp)) = fst (HexaProof_Hash sha256_sum hp) \<and>
   (ProofHash hp \<noteq> 0 \<longrightarrow> HexaProof_Hash sha256_sum hp = (ProofHash hp, hp)) \<and>
   (fst (HexaProof_Hash sha256_sum hp) \<noteq> 0 \<longrightarrow>
      fst (HexaProof_Hash sha256_sum ((snd (HexaProof_Hash sha256_sum hp))
             \<lparr>NeighborSignatures := sigs, StateProof := sp, MeshProof := mp,
              Timestamp := ts, ValidatorSet := vs\<rparr>))
        = fst (HexaProof_Hash sha256_sum hp)) \<and>
   fst (HexaProof_Hash sha256_sum ((snd (HexaProof_Hash sha256_sum hp))
          \<lparr>NeighborSignatures := sigs, StateProof := sp, MeshProof := mp,
           Timestamp := ts, ValidatorSet := vs, ProofHash := 0\<rparr>))
     = sha256_sum (concat (elems sigs) @ sp @ mp @ be_bytes 8 ts @ concat (map (be_bytes 20) vs))"
  for ts :: uint64 and ad :: address
  using HexaProof_Hash_twice [of sha256_sum hp] HexaProof_Hash_computed [of hp sha256_sum]
    HexaProof_Hash_stored [of sha256_sum hp] HexaProof_Hash_cached [of hp sha256_sum]
    HexaProof_Hash_after_mutation [where sha256_sum = sha256_sum and hp = hp and sigs = sigs
      and sp = sp and mp = mp and ts = ts and vs = vs]
    HexaProof_Hash_after_reset [where sha256_sum = sha256_sum
      and hp = "snd (HexaProof_Hash sha256_sum hp)"
      and sigs = sigs and sp = sp and mp = mp and ts = ts and vs = vs]
    length_be_bytes [of 8 ts] length_be_bytes [of 20 ad] Timestamp_bytes [of ts]
    address_bytes [of ad]
  by blast

theorem HexaProof_Hash_memoized_witness:
  "ProofHash (empty_HexaProof\<lparr>StateProof := [1, 2], Timestamp := 1000, ValidatorSet := [5]\<rparr>) = 0 \<and>
   fst (HexaProof_Hash example_digest
         (empty_HexaProof\<lparr>StateProof := [1, 2], Timestamp := 1000, ValidatorSet := [5]\<rparr>))
     = example_digest
         [1, 2, 0, 0, 0, 0, 0, 0, 3, 232,
          0, 0, 0, 0, 0, 0, 0, 0, 0, 0, 0, 0, 0, 0, 0, 0, 0, 0, 0, 5] \<and>
   example_digest
     [1, 2, 0, 0, 0, 0, 0, 0, 3, 232,
      0, 0, 0, 0, 0, 0, 0, 0, 0, 0, 0, 0, 0, 0, 0, 0, 0, 0, 0, 5] \<noteq> 0 \<and>
   fst (HexaProof_Hash example_digest
         (snd (HexaProof_Hash example_digest
                (empty_HexaProof\<lparr>StateProof := [1, 2], Timestamp := 1000,
                                  ValidatorSet := [5]\<rparr>))))
     = example_digest
         [1, 2, 0, 0, 0, 0, 0, 0, 3, 232,
          0, 0, 0, 0, 0, 0, 0, 0, 0, 0, 0, 0, 0, 0, 0, 0, 0, 0, 0, 5] \<and>
   fst (HexaProof_Hash example_digest
         ((snd (HexaProof_Hash example_digest
                 (empty_HexaProof\<lparr>StateProof := [1, 2], Timestamp := 1000,
                                   ValidatorSet := [5]\<rparr>)))
            \<lparr>NeighborSignatures := Array6 [7] [] [] [] [] [], StateProof := [3],
             MeshProof := [4], Timestamp := 2000, ValidatorSet := [6]\<rparr>))
     = example_digest
         [1, 2, 0, 0, 0, 0, 0, 0, 3, 232,
          0, 0, 0, 0, 0, 0, 0, 0, 0, 0, 0, 0, 0, 0, 0, 0, 0, 0, 0, 5] \<and>
   fst (HexaProof_Hash example_digest
         ((snd (HexaProof_Hash example_digest
                 (empty_HexaProof\<lparr>StateProof := [1, 2], Timestamp := 1000,
                                   ValidatorSet := [5]\<rparr>)))
            \<lparr>NeighborSignatures := Array6 [7] [] [] [] [] [], StateProof := [3],
             MeshProof := [4], Timestamp := 2000, ValidatorSet := [6],
             ProofHash := 0\<rparr>))
     = example_digest
         [7, 3, 4, 0, 0, 0, 0, 0, 0, 7, 208,
          0, 0, 0, 0, 0, 0, 0, 0, 0, 0, 0, 0, 0, 0, 0, 0, 0, 0, 0, 6] \<and>
   example_digest
     [7, 3, 4, 0, 0, 0, 0, 0, 0, 7, 208,
      0, 0, 0, 0, 0, 0, 0, 0, 0, 0, 0, 0, 0, 0, 0, 0, 0, 0, 0, 6]
     \<noteq> example_digest
         [1, 2, 0, 0, 0, 0, 0, 0, 3, 232,
          0, 0, 0, 0, 0, 0, 0, 0, 0, 0, 0, 0, 0, 0, 0, 0, 0, 0, 0, 5]"
  using HexaProof_Hash_memoized [where sha256_sum = example_digest
      and hp = "empty_HexaProof\<lparr>StateProof := [1, 2], Timestamp := 1000, ValidatorSet := [5]\<rparr>"
      and sigs = "Array6 [7] [] [] [] [] []" and sp = "[3]" and mp = "[4]"
      and ts = 2000 and vs = "[6]" and ad = 5]
  by (simp add: example_digest_def empty_HexaProof_def be_bytes_numeral be_bytes_one)

end
